theory Spec2Isabelle
  imports Main "HOL-Library.Sublist"
begin

section \<open>Python strings\<close>

text \<open>
  A Python \<open>str\<close> is a sequence of Unicode code points, so a string is a list of
  natural numbers (one per code point) and \<open>len\<close> is \<open>length\<close>. ASCII literals of
  the source are written through \<open>ustr\<close>; the bullet U+2022, which the source tests
  for, is the code point 8226.
\<close>

type_synonym ustring = "nat list"

definition ustr :: "string \<Rightarrow> ustring" where
  "ustr s = map of_char s"

definition bullet :: ustring where
  "bullet = [8226]"

text \<open>
  \<open>str.strip\<close>, \<open>str.isupper\<close> and \<open>str.upper\<close> read the Unicode character
  database of the interpreter. The database is not part of the repository, so it is a
  parameter of the model: whether a code point is whitespace, lower-case, upper-case or
  title-case, and its full upper-case mapping (one code point may map to several).
\<close>

record ucd =
  isspace :: "nat \<Rightarrow> bool"
  islower :: "nat \<Rightarrow> bool"
  isupper :: "nat \<Rightarrow> bool"
  istitle :: "nat \<Rightarrow> bool"
  toupper :: "nat \<Rightarrow> nat list"

text \<open>\<open>s.strip()\<close>: leading and trailing whitespace removed.\<close>

definition strip :: "ucd \<Rightarrow> ustring \<Rightarrow> ustring" where
  "strip U s = rev (dropWhile (isspace U) (rev (dropWhile (isspace U) s)))"

text \<open>
  \<open>s.isupper()\<close>: no code point of \<open>s\<close> is lower-case or title-case and at least one
  is upper-case.
\<close>

definition str_isupper :: "ucd \<Rightarrow> ustring \<Rightarrow> bool" where
  "str_isupper U s =
     (list_all (\<lambda>c. \<not> islower U c \<and> \<not> istitle U c) s \<and> list_ex (isupper U) s)"

text \<open>\<open>s.upper()\<close>.\<close>

definition str_upper :: "ucd \<Rightarrow> ustring \<Rightarrow> ustring" where
  "str_upper U s = concat (map (toupper U) s)"

text \<open>\<open>sub in s\<close>: \<open>sub\<close> occurs in \<open>s\<close> as a contiguous substring.\<close>

fun contains :: "ustring \<Rightarrow> ustring \<Rightarrow> bool" where
  "contains sub [] = (sub = [])"
| "contains sub (x # xs) = (prefix sub (x # xs) \<or> contains sub xs)"

text \<open>
  The leftmost occurrence of a separator: the text before it and the text after it.
\<close>

fun find_sep :: "ustring \<Rightarrow> ustring \<Rightarrow> (ustring \<times> ustring) option" where
  "find_sep sep [] = (if sep = [] then Some ([], []) else None)"
| "find_sep sep (x # xs) =
     (if prefix sep (x # xs) then Some ([], drop (length sep) (x # xs))
      else (case find_sep sep xs of
              None \<Rightarrow> None
            | Some (before, after) \<Rightarrow> Some (x # before, after)))"

lemma find_sep_shorter:
  "find_sep sep s = Some (b, a) \<Longrightarrow> sep \<noteq> [] \<Longrightarrow> length a < length s"
proof (induction s arbitrary: b)
  case Nil
  then show ?case by simp
next
  case (Cons x xs)
  show ?case
  proof (cases "prefix sep (x # xs)")
    case True
    with Cons.prems show ?thesis by auto
  next
    case False
    with Cons.prems obtain b' where "find_sep sep xs = Some (b', a)"
      by (auto split: option.splits)
    with Cons.IH Cons.prems(2) show ?thesis by fastforce
  qed
qed

text \<open>
  \<open>s.split(sep)\<close> for a non-empty separator: the pieces between the non-overlapping
  occurrences of \<open>sep\<close>, found from the left. Every separator of the source is a
  non-empty literal (Python raises \<open>ValueError\<close> on an empty one).
\<close>

function split :: "ustring \<Rightarrow> ustring \<Rightarrow> ustring list" where
  "split sep s =
     (if sep = [] then [s]
      else (case find_sep sep s of
              None \<Rightarrow> [s]
            | Some (before, after) \<Rightarrow> before # split sep after))"
  by pat_completeness auto
termination
  by (relation "measure (\<lambda>(sep, s). length s)") (auto dest: find_sep_shorter)

declare split.simps [simp del]

text \<open>\<open>s.split(sep, 1)\<close>: at most one cut, at the leftmost occurrence.\<close>

definition split1 :: "ustring \<Rightarrow> ustring \<Rightarrow> ustring list" where
  "split1 sep s =
     (case find_sep sep s of None \<Rightarrow> [s] | Some (before, after) \<Rightarrow> [before, after])"

text \<open>\<open>sep.join(parts)\<close>.\<close>

fun join :: "ustring \<Rightarrow> ustring list \<Rightarrow> ustring" where
  "join sep [] = []"
| "join sep [p] = p"
| "join sep (p # q # ps) = p @ sep @ join sep (q # ps)"

section \<open>Documents\<close>

text \<open>
  The paragraph styles by name: the five that \<open>create_resume_template\<close> registers and
  the three more of \<open>create_cover_letter_template\<close>.
\<close>

datatype style =
    NameStyle | ContactStyle | SectionStyle | ContentStyle | EducationStyle
  | HeaderStyle | DateStyle | RecipientStyle

text \<open>
  A paragraph of the output document: its style (\<open>None\<close> until one is assigned, as
  \<open>add_paragraph()\<close> leaves it), its runs in order, each a text with its bold flag,
  and the space-before in points when the code sets one. \<open>p.text = t\<close> replaces the
  content by one plain run; \<open>p.add_run(t)\<close> appends a run; reading \<open>p.text\<close>
  concatenates the runs.
\<close>

record docx_paragraph =
  pstyle :: "style option"
  runs :: "(ustring \<times> bool) list"
  space_before :: "nat option"


definition add_paragraph :: docx_paragraph where
  "add_paragraph = \<lparr>pstyle = None, runs = [], space_before = None\<rparr>"

definition set_text :: "ustring \<Rightarrow> docx_paragraph \<Rightarrow> docx_paragraph" where
  "set_text t p = p\<lparr>runs := [(t, False)]\<rparr>"

definition add_run :: "ustring \<Rightarrow> bool \<Rightarrow> docx_paragraph \<Rightarrow> docx_paragraph" where
  "add_run t b p = p\<lparr>runs := runs p @ [(t, b)]\<rparr>"

section \<open>\<open>format_resume\<close>\<close>

text \<open>
  The branch of the \<open>if\<close>/\<open>elif\<close> cascade of \<open>format_resume\<close> that a line takes,
  named by the role the branch formats: section header (line 617), contact info
  (line 625), name (line 633), and inside the final \<open>else\<close> the education row
  (line 643), the bullet entry (line 653), the course or skill listing (line 669) and
  plain content (line 673).
\<close>

datatype role =
  SectionHeader | ContactLine | Name | InstitutionRow | BulletEntry | LabelValue | PlainText

text \<open>
  The conditions of the cascade, in the order of the source. \<open>document\<close> is the list
  of paragraphs before the new one is added, which is what
  \<open>document.paragraphs[:-1]\<close> is after \<open>add_paragraph\<close>.
\<close>

definition classify :: "ucd \<Rightarrow> style option \<Rightarrow> docx_paragraph list \<Rightarrow> ustring \<Rightarrow> role" where
  "classify U previous_style document text =
     (if str_isupper U text \<and> \<not> contains bullet text \<and> \<not> contains (ustr ''@'') text
        then SectionHeader
      else if contains (ustr ''@'') text \<and> contains bullet text then ContactLine
      else if document = [] then Name
      else if previous_style = Some SectionStyle \<and> contains (ustr ''University'') text
        then InstitutionRow
      else if prefix bullet text then BulletEntry
      else if previous_style = Some SectionStyle
              \<and> (contains (ustr ''Courses'') text \<or> contains (ustr ''Skills'') text)
        then LabelValue
      else PlainText)"

text \<open>
  Python exceptions, as far as the code can meet them: \<open>ValueError\<close> (unpacking),
  \<open>KeyError\<close> (a missing dictionary key), any other exception derived from
  \<open>Exception\<close> that a library call raises, with its message, and \<open>SystemExit\<close>,
  which \<open>exit(n)\<close> raises and which is not derived from \<open>Exception\<close>.
\<close>

datatype exn = ValueError | KeyError string | LibraryError ustring | SystemExit nat

text \<open>
  Unpacking \<open>a, b = xs\<close> raises \<open>ValueError\<close> unless \<open>xs\<close> has exactly two elements.
\<close>

definition unpack2 :: "ustring list \<Rightarrow> exn + (ustring \<times> ustring)" where
  "unpack2 xs = (case xs of [a, b] \<Rightarrow> Inr (a, b) | _ \<Rightarrow> Inl ValueError)"

text \<open>The body of each branch: the paragraph it builds from the stripped line.\<close>

definition render ::
  "ucd \<Rightarrow> style option \<Rightarrow> role \<Rightarrow> ustring \<Rightarrow> exn + docx_paragraph" where
  "render U previous_style r text =
     (case r of
        SectionHeader \<Rightarrow>
          (let p = add_paragraph\<lparr>pstyle := Some SectionStyle\<rparr>;
               p = (if previous_style \<noteq> None then p\<lparr>space_before := Some 6\<rparr> else p)
           in Inr (set_text text p))
      | ContactLine \<Rightarrow>
          (let p = add_paragraph\<lparr>pstyle := Some ContactStyle\<rparr>;
               contacts = map (strip U) (split bullet text)
           in Inr (set_text (join (ustr '' '' @ bullet @ ustr '' '') contacts) p))
      | Name \<Rightarrow>
          (let p = add_paragraph\<lparr>pstyle := Some NameStyle\<rparr>
           in Inr (set_text (str_upper U text) p))
      | InstitutionRow \<Rightarrow>
          (let p = add_paragraph\<lparr>pstyle := Some EducationStyle\<rparr>;
               parts = split (ustr [CHR 0x09]) text
           in if length parts \<ge> 2 then
                (let p = add_run (parts ! 0) True p;
                     p = add_run (ustr [CHR 0x09] @ parts ! 1) False p
                 in if length parts > 2
                    then Inr (add_run (ustr [CHR 0x09] @ parts ! 2) False p)
                    else Inr p)
              else Inr p)
      | BulletEntry \<Rightarrow>
          (let p = add_paragraph\<lparr>pstyle := Some ContentStyle\<rparr>;
               text = strip U (drop 1 text)
           in if contains (ustr '' - '') text then
                (case unpack2 (split1 (ustr '' - '') text) of
                   Inl e \<Rightarrow> Inl e
                 | Inr (title, description) \<Rightarrow>
                     Inr (add_run (ustr '' - '' @ strip U description) False
                           (add_run (strip U title) True
                             (add_run (bullet @ ustr '' '') True p))))
              else Inr (add_run text False (add_run (bullet @ ustr '' '') True p)))
      | LabelValue \<Rightarrow>
          (let p = add_paragraph\<lparr>pstyle := Some ContentStyle\<rparr>
           in case (if contains (ustr '':'') text then unpack2 (split1 (ustr '':'') text)
                    else Inr (text, [])) of
                Inl e \<Rightarrow> Inl e
              | Inr (label, courses) \<Rightarrow>
                  Inr (add_run courses False (add_run (label @ ustr '':'') True p)))
      | PlainText \<Rightarrow>
          (let p = add_paragraph\<lparr>pstyle := Some ContentStyle\<rparr>
           in Inr (set_text text p)))"

text \<open>
  \<open>previous_style\<close> after a line: the literal the first three branches assign, and
  \<open>p.style.name\<close> (line 676) in the final \<open>else\<close>.
\<close>

definition style_name :: "docx_paragraph \<Rightarrow> style option" where
  "style_name p = pstyle p"

text \<open>
  One iteration of the loop over \<open>content\<close>, on the state \<open>(previous_style, document)\<close>.
  A paragraph whose text is empty after \<open>strip\<close> is skipped (\<open>continue\<close>).
\<close>

definition format_paragraph ::
  "ucd \<Rightarrow> style option \<times> docx_paragraph list \<Rightarrow> ustring
     \<Rightarrow> exn + (style option \<times> docx_paragraph list)" where
  "format_paragraph U st paragraph_text =
     (let (previous_style, document) = st;
          text = strip U paragraph_text
      in if text = [] then Inr (previous_style, document)
         else (case render U previous_style (classify U previous_style document text) text of
                 Inl e \<Rightarrow> Inl e
               | Inr p \<Rightarrow> Inr (style_name p, document @ [p])))"

text \<open>The loop: an exception ends it and is re-raised by the handler (line 680).\<close>

fun format_loop ::
  "ucd \<Rightarrow> style option \<times> docx_paragraph list \<Rightarrow> ustring list
     \<Rightarrow> exn + (style option \<times> docx_paragraph list)" where
  "format_loop U st [] = Inr st"
| "format_loop U st (t # ts) =
     (case format_paragraph U st t of
        Inl e \<Rightarrow> Inl e
      | Inr st' \<Rightarrow> format_loop U st' ts)"

text \<open>
  \<open>format_resume(content, document)\<close>: \<open>content\<close> is given by the \<open>text\<close> of each of
  its paragraphs; the result is the document with the new paragraphs appended.
\<close>

definition format_resume :: "ucd \<Rightarrow> ustring list \<Rightarrow> docx_paragraph list \<Rightarrow> exn + docx_paragraph list" where
  "format_resume U content document =
     (case format_loop U (None, document) content of
        Inl e \<Rightarrow> Inl e
      | Inr (previous_style, document') \<Rightarrow> Inr document')"





section \<open>\<open>format_cover_letter\<close>\<close>

text \<open>\<open>user_info[key]\<close>: a missing key raises \<open>KeyError\<close>.\<close>

definition getitem :: "(string \<rightharpoonup> ustring) \<Rightarrow> string \<Rightarrow> exn + ustring" where
  "getitem d k = (case d k of None \<Rightarrow> Inl (KeyError k) | Some v \<Rightarrow> Inr v)"

definition bind_exn :: "exn + 'a \<Rightarrow> ('a \<Rightarrow> exn + 'b) \<Rightarrow> exn + 'b" where
  "bind_exn m f = (case m of Inl e \<Rightarrow> Inl e | Inr x \<Rightarrow> f x)"

text \<open>
  The loop over \<open>content.split('\n\n')\<close> (lines 294 to 298): a part that is not empty
  after \<open>strip\<close> adds one \<open>ContentStyle\<close> paragraph holding the stripped part.
\<close>

fun add_content_paragraphs ::
  "ucd \<Rightarrow> docx_paragraph list \<Rightarrow> ustring list \<Rightarrow> docx_paragraph list" where
  "add_content_paragraphs U document [] = document"
| "add_content_paragraphs U document (para # paragraphs) =
     (if strip U para \<noteq> []
      then add_content_paragraphs U
             (document @ [set_text (strip U para) (add_paragraph\<lparr>pstyle := Some ContentStyle\<rparr>)])
             paragraphs
      else add_content_paragraphs U document paragraphs)"

text \<open>
  \<open>format_cover_letter(document, content, user_info)\<close>. \<open>today\<close> is the value of
  \<open>datetime.now().strftime("%B %d, %Y")\<close>. The result is the document after the call,
  or the exception that ends it.
\<close>

definition format_cover_letter ::
  "ucd \<Rightarrow> ustring \<Rightarrow> docx_paragraph list \<Rightarrow> ustring \<Rightarrow> (string \<rightharpoonup> ustring)
     \<Rightarrow> exn + docx_paragraph list" where
  "format_cover_letter U today document content user_info =
     bind_exn (getitem user_info ''name'') (\<lambda>name.
     bind_exn (getitem user_info ''email'') (\<lambda>email.
     bind_exn (getitem user_info ''phone'') (\<lambda>phone.
     bind_exn (if ''github'' \<in> dom user_info then getitem user_info ''github'' else Inr []) (\<lambda>github.
     bind_exn (if ''address'' \<in> dom user_info then getitem user_info ''address'' else Inr []) (\<lambda>address.
     bind_exn (getitem user_info ''company_name'') (\<lambda>company_name.
       let header = add_run (str_upper U name) True (add_paragraph\<lparr>pstyle := Some HeaderStyle\<rparr>);
           contact_text = email @ ustr '' '' @ bullet @ ustr '' '' @ phone;
           contact_text = (if ''github'' \<in> dom user_info
                           then contact_text @ ustr '' '' @ bullet @ ustr '' '' @ github
                           else contact_text);
           contact_text = (if ''address'' \<in> dom user_info
                           then contact_text @ ustr '' '' @ bullet @ ustr '' '' @ address
                           else contact_text);
           contact = set_text contact_text (add_paragraph\<lparr>pstyle := Some HeaderStyle\<rparr>);
           date = set_text today (add_paragraph\<lparr>pstyle := Some DateStyle\<rparr>);
           recipient = set_text (company_name @ [10] @ ustr ''Hiring Manager'')
                         (add_paragraph\<lparr>pstyle := Some RecipientStyle\<rparr>);
           salutation = set_text (ustr ''Dear Hiring Manager,'')
                          (add_paragraph\<lparr>pstyle := Some ContentStyle\<rparr>);
           document = document @ [header, contact, date, recipient, salutation];
           document = add_content_paragraphs U document (split [10, 10] content);
           closing = set_text (ustr ''Sincerely,'' @ [10] @ name)
                       (add_paragraph\<lparr>pstyle := Some ContentStyle\<rparr>)
       in Inr (document @ [closing])))))))"

section \<open>The endpoints\<close>

text \<open>
  An uploaded file of the request: its file name, what \<open>file.save(path)\<close> does
  (\<open>None\<close>: the file is written; \<open>Some msg\<close>: it raises), and what \<open>Document(...)\<close> does
  on it (\<open>Inl msg\<close>: it raises, the file is not a readable word-processor document;
  \<open>Inr ps\<close>: the texts of its paragraphs).
\<close>

record upload =
  filename :: ustring
  save_raises :: "ustring option"
  docx :: "ustring + ustring list"

record request =
  files :: "string \<rightharpoonup> upload"
  form :: "string \<rightharpoonup> ustring"

text \<open>
  What the collaborators do during the request: the completion of the text-generation
  call (\<open>Inl msg\<close>: the call raises), whether saving the output document raises, and the
  clock.
\<close>

record datetime =
  year :: nat
  month :: nat
  day :: nat
  hour :: nat
  minute :: nat
  second :: nat

record env =
  completion :: "ustring + ustring"
  output_save_raises :: "ustring option"
  now :: datetime

text \<open>A JSON response: the status code and the fields of the object.\<close>

datatype response = Response nat "(string \<times> ustring) list"

text \<open>
  What a view function does: it returns a response, or an exception leaves it (no
  response is built).
\<close>

datatype outcome = Returns response | Raises exn

text \<open>\<open>str(e)\<close>.\<close>

fun str_exn :: "exn \<Rightarrow> ustring" where
  "str_exn ValueError = ustr ''not enough values to unpack (expected 2, got 1)''"
| "str_exn (KeyError k) = ustr ([CHR 0x27] @ k @ [CHR 0x27])"
| "str_exn (LibraryError msg) = msg"
| "str_exn (SystemExit n) = (if n = 1 then ustr ''1'' else [])"

text \<open>
  \<open>try: body except Exception as e: return jsonify({"error": str(e)}), 500\<close>.
  \<open>SystemExit\<close> is not an \<open>Exception\<close>: the handler does not catch it.
\<close>

definition except_Exception :: "exn + response \<Rightarrow> outcome" where
  "except_Exception body =
     (case body of
        Inr r \<Rightarrow> Returns r
      | Inl (SystemExit n) \<Rightarrow> Raises (SystemExit n)
      | Inl e \<Rightarrow> Returns (Response 500 [(''error'', str_exn e)]))"

text \<open>
  \<open>allowed_file\<close> (line 59): the text after the last dot, lower-cased, is \<open>docx\<close>.
  \<open>rsplit('.', 1)[1]\<close> is the longest suffix without a dot.
\<close>

definition str_lower_ascii :: "ustring \<Rightarrow> ustring" where
  "str_lower_ascii s = map (\<lambda>c. if 65 \<le> c \<and> c \<le> 90 then c + 32 else c) s"

definition allowed_file :: "ustring \<Rightarrow> bool" where
  "allowed_file name =
     (contains (ustr ''.'') name
      \<and> str_lower_ascii (rev (takeWhile (\<lambda>c. c \<noteq> 46) (rev name))) = ustr ''docx'')"

text \<open>\<open>read_docx\<close> (line 62): on any exception it prints and calls \<open>exit(1)\<close>.\<close>

definition read_docx :: "ustring + ustring list \<Rightarrow> exn + ustring" where
  "read_docx d =
     (case d of
        Inr paragraphs \<Rightarrow> Inr (join [10] paragraphs)
      | Inl msg \<Rightarrow> Inl (SystemExit 1))"

text \<open>
  \<open>write_docx\<close> (line 70): the stripped non-empty lines of the content become the
  paragraphs of a new document; when saving raises, the exception is logged and the
  result is \<open>False\<close>. The second component is the file written, if any.
\<close>

definition write_docx :: "ucd \<Rightarrow> ustring option \<Rightarrow> ustring \<Rightarrow> bool \<times> ustring list option" where
  "write_docx U save content =
     (let doc = map (strip U) (filter (\<lambda>paragraph. strip U paragraph \<noteq> []) (split [10] content))
      in case save of None \<Rightarrow> (True, Some doc) | Some msg \<Rightarrow> (False, None))"

text \<open>
  \<open>generate_cover_letter\<close> (line 118): the completion, or \<open>None\<close> when the call raises.
\<close>

definition generate_cover_letter :: "ustring + ustring \<Rightarrow> ustring option" where
  "generate_cover_letter c = (case c of Inr text \<Rightarrow> Some text | Inl msg \<Rightarrow> None)"

text \<open>
  \<open>strftime("%Y%m%d%H%M%S")\<close>: the year in four digits (the clock reads a year from
  1000 to 9999) and the other fields in two.
\<close>

definition digit :: "nat \<Rightarrow> nat" where
  "digit n = 48 + n mod 10"

definition two_digits :: "nat \<Rightarrow> ustring" where
  "two_digits n = [digit (n div 10), digit n]"

definition four_digits :: "nat \<Rightarrow> ustring" where
  "four_digits n = [digit (n div 1000), digit (n div 100), digit (n div 10), digit n]"

definition timestamp :: "datetime \<Rightarrow> ustring" where
  "timestamp t =
     four_digits (year t) @ two_digits (month t) @ two_digits (day t)
       @ two_digits (hour t) @ two_digits (minute t) @ two_digits (second t)"

text \<open>Truthiness of an optional string: neither \<open>None\<close> nor empty.\<close>

definition truthy :: "ustring option \<Rightarrow> bool" where
  "truthy v = (case v of None \<Rightarrow> False | Some s \<Rightarrow> s \<noteq> [])"

text \<open>
  \<open>generate_cover_letter_endpoint\<close> (line 306). The result of \<open>write_docx\<close> is not
  looked at (line 353). \<open>cleanup_files\<close> handles its own exceptions and does not change
  the response.
\<close>

definition cover_letter_body :: "ucd \<Rightarrow> env \<Rightarrow> request \<Rightarrow> exn + response" where
  "cover_letter_body U E req =
     (if ''job_description'' \<notin> dom (files req) \<or> ''resume'' \<notin> dom (files req)
      then Inr (Response 400
                 [(''error'', ustr ''Both job description and resume files are required'')])
      else
        let job_description_file = the (files req ''job_description'')
        in if \<not> allowed_file (filename job_description_file)
           then Inr (Response 400 [(''error'', ustr ''Invalid file format for job description'')])
           else
             bind_exn (case save_raises job_description_file of
                         Some msg \<Rightarrow> Inl (LibraryError msg) | None \<Rightarrow> Inr ()) (\<lambda>_.
             bind_exn (read_docx (docx job_description_file)) (\<lambda>job_description.
               let resume_file = the (files req ''resume'')
               in if \<not> allowed_file (filename resume_file)
                  then Inr (Response 400 [(''error'', ustr ''Invalid file format for resume'')])
                  else
                    bind_exn (case save_raises resume_file of
                                Some msg \<Rightarrow> Inl (LibraryError msg) | None \<Rightarrow> Inr ()) (\<lambda>_.
                    bind_exn (read_docx (docx resume_file)) (\<lambda>user_resume.
                      if \<not> (truthy (form req ''user_name'') \<and> truthy (form req ''job_title'')
                             \<and> truthy (form req ''company_name''))
                      then Inr (Response 400 [(''error'', ustr ''Missing required parameters'')])
                      else
                        let cover_letter = generate_cover_letter (completion E)
                        in if truthy cover_letter
                           then
                             let output_filename =
                                   ustr ''cover_letter_'' @ timestamp (now E) @ ustr ''.docx'';
                                 written = write_docx U (output_save_raises E) (the cover_letter)
                             in Inr (Response 200
                                      [(''message'', ustr ''Cover letter generated successfully''),
                                       (''file_path'', output_filename)])
                           else Inr (Response 500
                                      [(''error'', ustr ''Failed to generate cover letter'')]))))))"

definition generate_cover_letter_endpoint :: "ucd \<Rightarrow> env \<Rightarrow> request \<Rightarrow> outcome" where
  "generate_cover_letter_endpoint U E req = except_Exception (cover_letter_body U E req)"

text \<open>
  \<open>customize_resume\<close> (line 370): the uploaded document is opened inside the \<open>try\<close>,
  formatted into the empty document of \<open>create_resume_template\<close> and saved under a
  fixed name.
\<close>

definition customize_resume_body :: "ucd \<Rightarrow> env \<Rightarrow> request \<Rightarrow> exn + response" where
  "customize_resume_body U E req =
     (if ''resume'' \<notin> dom (files req)
      then Inr (Response 400 [(''error'', ustr ''No resume file uploaded'')])
      else
        let resume_file = the (files req ''resume'')
        in if \<not> suffix (ustr ''.docx'') (filename resume_file)
           then Inr (Response 400 [(''error'', ustr ''Please upload a .docx file'')])
           else
             bind_exn (case docx resume_file of
                         Inl msg \<Rightarrow> Inl (LibraryError msg) | Inr ps \<Rightarrow> Inr ps) (\<lambda>input_doc.
             bind_exn (format_resume U input_doc []) (\<lambda>output_doc.
             bind_exn (case output_save_raises E of
                         Some msg \<Rightarrow> Inl (LibraryError msg) | None \<Rightarrow> Inr ()) (\<lambda>_.
               Inr (Response 200 [(''file_path'', ustr ''formatted_resume.docx'')])))))"

definition customize_resume :: "ucd \<Rightarrow> env \<Rightarrow> request \<Rightarrow> outcome" where
  "customize_resume U E req = except_Exception (customize_resume_body U E req)"

section \<open>A character table for concrete inputs\<close>

text \<open>
  For evaluating the code at concrete inputs: the whitespace of \<open>str.isspace\<close>
  (U+0009 to U+000D, U+001C to U+0020, U+0085, U+00A0, U+1680, U+2000 to U+200A, U+2028,
  U+2029, U+202F, U+205F, U+3000) and the casing of the ASCII letters. It agrees with
  the Unicode database on every code point below 128 and on the bullet U+2022 (which is
  punctuation: not whitespace, not cased), the only code points of the inputs below.
\<close>

definition ascii_ucd :: ucd where
  "ascii_ucd =
     \<lparr>isspace = (\<lambda>c. (9 \<le> c \<and> c \<le> 13) \<or> (28 \<le> c \<and> c \<le> 32) \<or> c = 133 \<or> c = 160
                      \<or> c = 5760 \<or> (8192 \<le> c \<and> c \<le> 8202) \<or> c = 8232 \<or> c = 8233
                      \<or> c = 8239 \<or> c = 8287 \<or> c = 12288),
      islower = (\<lambda>c. 97 \<le> c \<and> c \<le> 122),
      isupper = (\<lambda>c. 65 \<le> c \<and> c \<le> 90),
      istitle = (\<lambda>c. False),
      toupper = (\<lambda>c. if 97 \<le> c \<and> c \<le> 122 then [c - 32] else [c])\<rparr>"

text \<open>Concrete inputs: a request with two uploads, an environment, a letter head.\<close>

definition example_request :: "ustring + ustring list \<Rightarrow> request" where
  "example_request jd =
     \<lparr>files = [''job_description'' \<mapsto>
                  \<lparr>filename = ustr ''job.docx'', save_raises = None, docx = jd\<rparr>,
               ''resume'' \<mapsto>
                  \<lparr>filename = ustr ''resume.docx'', save_raises = None,
                   docx = Inr [ustr ''Jane Doe'']\<rparr>],
      form = [''user_name'' \<mapsto> ustr ''Jane Doe'', ''job_title'' \<mapsto> ustr ''Engineer'',
              ''company_name'' \<mapsto> ustr ''Acme'']\<rparr>"

definition example_env :: "ustring option \<Rightarrow> env" where
  "example_env save =
     \<lparr>completion = Inr (ustr ''Dear Hiring Manager''), output_save_raises = save,
      now = \<lparr>year = 2024, month = 3, day = 5, hour = 14, minute = 7, second = 9\<rparr>\<rparr>"

definition example_user_info :: "string \<rightharpoonup> ustring" where
  "example_user_info =
     [''name'' \<mapsto> ustr ''Jane Doe'', ''email'' \<mapsto> ustr ''jane@x.com'',
      ''phone'' \<mapsto> ustr ''555-1234'', ''company_name'' \<mapsto> ustr ''Acme'']"


section \<open>Facts about the string operations\<close>

lemma find_sep_Some:
  "find_sep sep s = Some (b, a) \<Longrightarrow> s = b @ sep @ a"
proof (induction s arbitrary: b)
  case Nil
  then show ?case by (simp split: if_splits)
next
  case (Cons x xs)
  show ?case
  proof (cases "prefix sep (x # xs)")
    case True
    with Cons.prems have "b = []" "a = drop (length sep) (x # xs)" by auto
    moreover from True obtain r where "x # xs = sep @ r" by (auto simp: prefix_def)
    ultimately show ?thesis by simp
  next
    case False
    with Cons.prems obtain b' where b': "find_sep sep xs = Some (b', a)" "b = x # b'"
      by (auto split: option.splits)
    with Cons.IH show ?thesis by simp
  qed
qed

lemma find_sep_None: "(find_sep sep s = None) = (\<not> contains sep s)"
  by (induction s) (auto split: option.splits)

lemma contains_find_sep:
  "contains sep s \<Longrightarrow> \<exists>b a. find_sep sep s = Some (b, a)"
  using find_sep_None [of sep s] by (cases "find_sep sep s") auto

lemma find_sep_before:
  "find_sep sep s = Some (b, a) \<Longrightarrow> sep \<noteq> [] \<Longrightarrow> \<not> contains sep b"
proof (induction s arbitrary: b)
  case Nil
  then show ?case by (simp split: if_splits)
next
  case (Cons x xs)
  show ?case
  proof (cases "prefix sep (x # xs)")
    case True
    with Cons.prems show ?thesis by auto
  next
    case False
    with Cons.prems obtain b' where b': "find_sep sep xs = Some (b', a)" "b = x # b'"
      by (auto split: option.splits)
    have "xs = b' @ sep @ a" using b'(1) by (rule find_sep_Some)
    with False have "\<not> prefix sep (x # b')"
      by (metis Cons_eq_appendI prefix_prefix)
    with Cons.IH [OF b'(1) Cons.prems(2)] b'(2) show ?thesis by simp
  qed
qed

lemma unpack2_split1:
  "contains sep s \<Longrightarrow>
     \<exists>b a. unpack2 (split1 sep s) = Inr (b, a) \<and> find_sep sep s = Some (b, a)"
  by (auto simp: unpack2_def split1_def dest: contains_find_sep)

lemma render_total: "\<exists>p. render U previous_style r text = Inr p"
proof (cases r)
  case BulletEntry
  show ?thesis
  proof (cases "contains (ustr '' - '') (strip U (drop 1 text))")
    case True
    from unpack2_split1 [OF True] obtain b a
      where "unpack2 (split1 (ustr '' - '') (strip U (drop 1 text))) = Inr (b, a)" by blast
    with True BulletEntry show ?thesis by (simp add: render_def Let_def)
  next
    case False
    with BulletEntry show ?thesis by (simp add: render_def Let_def)
  qed
next
  case LabelValue
  show ?thesis
  proof (cases "contains (ustr '':'') text")
    case True
    from unpack2_split1 [OF True] obtain b a
      where "unpack2 (split1 (ustr '':'') text) = Inr (b, a)" by blast
    with True LabelValue show ?thesis by (simp add: render_def Let_def)
  next
    case False
    with LabelValue show ?thesis by (simp add: render_def Let_def)
  qed
qed (simp_all add: render_def Let_def)

















lemma split_None: "find_sep sep s = None \<Longrightarrow> split sep s = [s]"
  by (subst split.simps) simp






lemma split_one:
  assumes "\<not> contains sep s"
  shows "split sep s = [s]"
  using assms by (simp add: split_None find_sep_None)




section \<open>Facts about one iteration of \<open>format_resume\<close>\<close>

lemmas ev = ustr_def bullet_def strip_def ascii_ucd_def split.simps split1_def unpack2_def
  str_isupper_def str_upper_def



lemma format_paragraph_step:
  assumes "strip U line = text" "text \<noteq> []"
    and "render U previous_style (classify U previous_style document text) text = Inr p"
  shows "format_paragraph U (previous_style, document) line = Inr (pstyle p, document @ [p])"
  using assms by (simp add: format_paragraph_def style_name_def)

lemma format_paragraph_blank:
  "strip U line = [] \<Longrightarrow> format_paragraph U st line = Inr st"
  by (cases st) (simp add: format_paragraph_def)

lemma contains_nonempty: "contains sub s \<Longrightarrow> sub \<noteq> [] \<Longrightarrow> s \<noteq> []"
  by (cases s) auto

lemma render_style:
  "render U previous_style r text = Inr p \<Longrightarrow>
     pstyle p = Some (case r of SectionHeader \<Rightarrow> SectionStyle | ContactLine \<Rightarrow> ContactStyle
                      | Name \<Rightarrow> NameStyle | InstitutionRow \<Rightarrow> EducationStyle
                      | BulletEntry \<Rightarrow> ContentStyle | LabelValue \<Rightarrow> ContentStyle
                      | PlainText \<Rightarrow> ContentStyle)"
  by (cases r)
     (auto simp: render_def Let_def set_text_def add_run_def add_paragraph_def
           split: if_splits sum.splits prod.splits)

lemma format_paragraph_extends:
  "\<exists>previous_style' ps.
     format_paragraph U (previous_style, document) line = Inr (previous_style', document @ ps)"
proof (cases "strip U line = []")
  case True
  then show ?thesis by (simp add: format_paragraph_def)
next
  case False
  obtain p where
    "render U previous_style (classify U previous_style document (strip U line)) (strip U line)
       = Inr p"
    using render_total by blast
  from format_paragraph_step [OF refl False this] show ?thesis by blast
qed

lemma format_loop_extends:
  "\<exists>previous_style' ps.
     format_loop U (previous_style, document) content = Inr (previous_style', document @ ps)"
proof (induction content arbitrary: previous_style document)
  case Nil
  then show ?case by simp
next
  case (Cons line content)
  obtain s1 ps1 where
    1: "format_paragraph U (previous_style, document) line = Inr (s1, document @ ps1)"
    using format_paragraph_extends by blast
  obtain s2 ps2 where
    "format_loop U (s1, document @ ps1) content = Inr (s2, (document @ ps1) @ ps2)"
    using Cons.IH by blast
  with 1 show ?case by auto
qed

lemma format_loop_blanks:
  "\<forall>b \<in> set blanks. strip U b = [] \<Longrightarrow>
     format_loop U st (blanks @ content) = format_loop U st content"
  by (induction blanks) (simp_all add: format_paragraph_blank)

lemma format_resume_total: "\<exists>document'. format_resume U content document = Inr document'"
  using format_loop_extends [of U None document content]
  by (auto simp: format_resume_def)

section \<open>Facts about rendering twice\<close>
















lemma prefix_bullet: "prefix bullet t = (t \<noteq> [] \<and> hd t = 8226)"
  by (cases t) (auto simp: bullet_def)











lemma classify_first: "classify U prev [] x = classify U None [] x"
  by (simp add: classify_def)










section \<open>Facts about \<open>format_cover_letter\<close>\<close>

lemma add_content_paragraphs_eq:
  "add_content_paragraphs U document parts =
     document @
       map (\<lambda>part. \<lparr>pstyle = Some ContentStyle, runs = [(strip U part, False)],
                     space_before = None\<rparr>)
           (filter (\<lambda>part. strip U part \<noteq> []) parts)"
  by (induction parts arbitrary: document) (simp_all add: set_text_def add_paragraph_def)

lemma format_cover_letter_result:
  assumes "user_info ''name'' = Some name" and "user_info ''email'' = Some email"
    and "user_info ''phone'' = Some phone" and "user_info ''company_name'' = Some company"
  shows "\<exists>header contact date recipient salutation closing.
           format_cover_letter U today document content user_info =
             Inr (document @ [header, contact, date, recipient, salutation]
                  @ map (\<lambda>part. \<lparr>pstyle = Some ContentStyle, runs = [(strip U part, False)],
                                  space_before = None\<rparr>)
                        (filter (\<lambda>part. strip U part \<noteq> []) (split [10, 10] content))
                  @ [closing])"
proof -
  have g: "(if ''github'' \<in> dom user_info then getitem user_info ''github'' else Inr [])
             = Inr (case user_info ''github'' of None \<Rightarrow> [] | Some v \<Rightarrow> v)"
          "(if ''address'' \<in> dom user_info then getitem user_info ''address'' else Inr [])
             = Inr (case user_info ''address'' of None \<Rightarrow> [] | Some v \<Rightarrow> v)"
    by (auto simp: getitem_def dom_def)
  show ?thesis
    unfolding format_cover_letter_def g
    using assms
    by (simp add: getitem_def bind_exn_def Let_def add_content_paragraphs_eq)
qed

section \<open>The claims\<close>

text \<open>
  A first line in capitals takes the section-header branch, not the name branch.
\<close>

theorem first_line_counterexample:
  "classify ascii_ucd None [] (strip ascii_ucd (ustr ''EDUCATION'')) = SectionHeader \<and>
   format_resume ascii_ucd [ustr ''EDUCATION''] [] =
     Inr [\<lparr>pstyle = Some SectionStyle, runs = [(ustr ''EDUCATION'', False)],
           space_before = None\<rparr>]"
  by (simp add: format_resume_def format_paragraph_def classify_def render_def style_name_def
        Let_def set_text_def add_run_def add_paragraph_def ev)

text \<open>
  C1, amended. Blank lines are skipped, and the first non-empty line of an input
  formatted into an empty document takes the section-header branch when it is entirely
  upper-case and has neither a bullet nor \<open>@\<close>, the contact branch when it has both a
  bullet and \<open>@\<close>, and the name branch (its text upper-cased) in every other case.
\<close>

theorem first_line_role:
  assumes "\<forall>b \<in> set blanks. strip U b = []"
    and "strip U line = text" and "text \<noteq> []"
  shows "\<exists>ps. format_resume U (blanks @ line # content) [] =
           Inr ((if str_isupper U text \<and> \<not> contains bullet text \<and> \<not> contains (ustr ''@'') text
                 then \<lparr>pstyle = Some SectionStyle, runs = [(text, False)], space_before = None\<rparr>
                 else if contains (ustr ''@'') text \<and> contains bullet text
                 then \<lparr>pstyle = Some ContactStyle,
                       runs = [(join (ustr '' '' @ bullet @ ustr '' '')
                                     (map (strip U) (split bullet text)), False)],
                       space_before = None\<rparr>
                 else \<lparr>pstyle = Some NameStyle, runs = [(str_upper U text, False)],
                       space_before = None\<rparr>) # ps)"
proof -
  let ?p = "if str_isupper U text \<and> \<not> contains bullet text \<and> \<not> contains (ustr ''@'') text
            then \<lparr>pstyle = Some SectionStyle, runs = [(text, False)], space_before = None\<rparr>
            else if contains (ustr ''@'') text \<and> contains bullet text
            then \<lparr>pstyle = Some ContactStyle,
                  runs = [(join (ustr '' '' @ bullet @ ustr '' '')
                                (map (strip U) (split bullet text)), False)],
                  space_before = None\<rparr>
            else \<lparr>pstyle = Some NameStyle, runs = [(str_upper U text, False)],
                  space_before = None\<rparr>"
  have r: "render U None (classify U None [] text) text = Inr ?p"
    by (simp add: classify_def render_def Let_def set_text_def add_paragraph_def)
  have 1: "format_paragraph U (None, []) line = Inr (pstyle ?p, [?p])"
    using format_paragraph_step [OF assms(2,3) r] by simp
  obtain s ps where 2: "format_loop U (pstyle ?p, [?p]) content = Inr (s, [?p] @ ps)"
    using format_loop_extends by blast
  have "format_loop U (None, []) (blanks @ line # content) = Inr (s, ?p # ps)"
    using format_loop_blanks [OF assms(1)] 1 2 by simp
  then show ?thesis by (simp add: format_resume_def)
qed

theorem first_line_role_witness:
  "\<exists>ps. format_resume ascii_ucd ([ustr ''  '', []] @ ustr ''Jane Doe'' # [ustr ''EDUCATION'']) [] =
     Inr (\<lparr>pstyle = Some NameStyle, runs = [(ustr ''JANE DOE'', False)], space_before = None\<rparr>
          # ps)"
proof -
  have b: "\<forall>b \<in> set [ustr ''  '', []]. strip ascii_ucd b = []" by (simp add: ev)
  have s: "strip ascii_ucd (ustr ''Jane Doe'') = ustr ''Jane Doe''" by (simp add: ev)
  have ne: "ustr ''Jane Doe'' \<noteq> []" by (simp add: ev)
  have u: "\<not> str_isupper ascii_ucd (ustr ''Jane Doe'')" by (simp add: ev)
  have a: "\<not> contains (ustr ''@'') (ustr ''Jane Doe'')" by (simp add: ev)
  have up: "str_upper ascii_ucd (ustr ''Jane Doe'') = ustr ''JANE DOE''" by (simp add: ev)
  from first_line_role [OF b s ne, of "[ustr ''EDUCATION'']"] u a up show ?thesis by simp
qed




text \<open>
  C3. The claim: a line that follows a section header and contains \<open>University\<close> is an
  institution row whose tab-separated parts are all kept in the rendered block, a line
  with no tab being rendered with its full text. The code adds runs only when the line
  has at least two parts (line 646): on the resume \<open>EDUCATION\<close>, \<open>Stanford University\<close>
  the second line takes the education branch and its paragraph is left without any text.
\<close>

theorem institution_row_without_tab:
  "classify ascii_ucd (Some SectionStyle)
     [\<lparr>pstyle = Some SectionStyle, runs = [(ustr ''EDUCATION'', False)], space_before = None\<rparr>]
     (ustr ''Stanford University'') = InstitutionRow \<and>
   format_resume ascii_ucd [ustr ''EDUCATION'', ustr ''Stanford University''] [] =
     Inr [\<lparr>pstyle = Some SectionStyle, runs = [(ustr ''EDUCATION'', False)],
           space_before = None\<rparr>,
          \<lparr>pstyle = Some EducationStyle, runs = [], space_before = None\<rparr>]"
  by (simp add: format_resume_def format_paragraph_def classify_def render_def style_name_def
        Let_def set_text_def add_run_def add_paragraph_def ev)

text \<open>
  C4. The claim: every failure of document extraction reaches the caller as a
  structured error and never ends the process. In the cover-letter endpoint the
  documents are read by \<open>read_docx\<close>, which answers a failure with \<open>exit(1)\<close>; the
  \<open>SystemExit\<close> it raises passes the handler for \<open>Exception\<close>, so the view function
  returns no response at all.
\<close>

theorem extraction_failure_exits:
  assumes "files req ''job_description'' = Some jd" and "files req ''resume'' = Some cv"
    and "allowed_file (filename jd)" and "save_raises jd = None"
    and "docx jd = Inl msg"
  shows "generate_cover_letter_endpoint U E req = Raises (SystemExit 1)"
  using assms
  by (auto simp: generate_cover_letter_endpoint_def cover_letter_body_def except_Exception_def
        bind_exn_def read_docx_def Let_def)

theorem extraction_failure_exits_witness:
  "generate_cover_letter_endpoint ascii_ucd (example_env None)
     (example_request (Inl (ustr ''Package not found''))) = Raises (SystemExit 1)"
proof -
  let ?req = "example_request (Inl (ustr ''Package not found''))"
  let ?jd = "\<lparr>filename = ustr ''job.docx'', save_raises = None,
              docx = Inl (ustr ''Package not found'')\<rparr>"
  let ?cv = "\<lparr>filename = ustr ''resume.docx'', save_raises = None,
              docx = Inr [ustr ''Jane Doe'']\<rparr>"
  have 1: "files ?req ''job_description'' = Some ?jd" by (simp add: example_request_def)
  have 2: "files ?req ''resume'' = Some ?cv" by (simp add: example_request_def)
  have 3: "allowed_file (filename ?jd)"
    by (simp add: allowed_file_def str_lower_ascii_def ustr_def)
  have 4: "save_raises ?jd = None" by simp
  have 5: "docx ?jd = Inl (ustr ''Package not found'')" by simp
  from extraction_failure_exits [OF 1 2 3 4 5] show ?thesis .
qed

text \<open>
  C5. The claim: a failed serialization of the output is reported as an error. The
  cover-letter endpoint does not look at the result of \<open>write_docx\<close>: when saving
  fails, \<open>write_docx\<close> returns \<open>False\<close>, no file is written, and the endpoint still
  answers with the success message and the name of the file.
\<close>

theorem failed_write_reports_success:
  assumes "files req ''job_description'' = Some jd" and "files req ''resume'' = Some cv"
    and "allowed_file (filename jd)" and "save_raises jd = None" and "docx jd = Inr jd_paragraphs"
    and "allowed_file (filename cv)" and "save_raises cv = None" and "docx cv = Inr cv_paragraphs"
    and "truthy (form req ''user_name'')" and "truthy (form req ''job_title'')"
    and "truthy (form req ''company_name'')"
    and "completion E = Inr letter" and "letter \<noteq> []"
    and "output_save_raises E = Some msg"
  shows "write_docx U (output_save_raises E) letter = (False, None) \<and>
         generate_cover_letter_endpoint U E req =
           Returns (Response 200
                     [(''message'', ustr ''Cover letter generated successfully''),
                      (''file_path'', ustr ''cover_letter_'' @ timestamp (now E) @ ustr ''.docx'')])"
  using assms
  by (auto simp: generate_cover_letter_endpoint_def cover_letter_body_def except_Exception_def
        bind_exn_def read_docx_def Let_def write_docx_def generate_cover_letter_def truthy_def)

theorem failed_write_reports_success_witness:
  "write_docx ascii_ucd (Some (ustr ''Permission denied'')) (ustr ''Dear Hiring Manager'')
     = (False, None) \<and>
   generate_cover_letter_endpoint ascii_ucd (example_env (Some (ustr ''Permission denied'')))
     (example_request (Inr [ustr ''Engineer wanted''])) =
     Returns (Response 200
               [(''message'', ustr ''Cover letter generated successfully''),
                (''file_path'', ustr ''cover_letter_20240305140709.docx'')])"
proof -
  let ?req = "example_request (Inr [ustr ''Engineer wanted''])"
  let ?E = "example_env (Some (ustr ''Permission denied''))"
  let ?jd = "\<lparr>filename = ustr ''job.docx'', save_raises = None,
              docx = Inr [ustr ''Engineer wanted'']\<rparr>"
  let ?cv = "\<lparr>filename = ustr ''resume.docx'', save_raises = None,
              docx = Inr [ustr ''Jane Doe'']\<rparr>"
  have 1: "files ?req ''job_description'' = Some ?jd" by (simp add: example_request_def)
  have 2: "files ?req ''resume'' = Some ?cv" by (simp add: example_request_def)
  have 3: "allowed_file (filename ?jd)"
    by (simp add: allowed_file_def str_lower_ascii_def ustr_def)
  have 4: "save_raises ?jd = None" by simp
  have 5: "docx ?jd = Inr [ustr ''Engineer wanted'']" by simp
  have 6: "allowed_file (filename ?cv)"
    by (simp add: allowed_file_def str_lower_ascii_def ustr_def)
  have 7: "save_raises ?cv = None" by simp
  have 8: "docx ?cv = Inr [ustr ''Jane Doe'']" by simp
  have 9: "truthy (form ?req ''user_name'')" by (simp add: example_request_def truthy_def ustr_def)
  have 10: "truthy (form ?req ''job_title'')" by (simp add: example_request_def truthy_def ustr_def)
  have 11: "truthy (form ?req ''company_name'')"
    by (simp add: example_request_def truthy_def ustr_def)
  have 12: "completion ?E = Inr (ustr ''Dear Hiring Manager'')" by (simp add: example_env_def)
  have 13: "ustr ''Dear Hiring Manager'' \<noteq> []" by (simp add: ustr_def)
  have 14: "output_save_raises ?E = Some (ustr ''Permission denied'')"
    by (simp add: example_env_def)
  have t: "timestamp \<lparr>year = 2024, month = 3, day = 5, hour = 14, minute = 7, second = 9\<rparr>
             = ustr ''20240305140709''"
    by (simp add: timestamp_def four_digits_def two_digits_def digit_def ustr_def)
  from failed_write_reports_success [OF 1 2 3 4 5 6 7 8 9 10 11 12 13 14, of ascii_ucd]
  show ?thesis by (simp add: t example_env_def ustr_def)
qed

text \<open>
  The state after a bullet entry and the state after a plain line are the same value,
  \<open>ContentStyle\<close>, although the two lines took different branches.
\<close>

theorem previous_role_counterexample:
  "classify ascii_ucd (Some NameStyle) [add_paragraph] (bullet @ ustr '' Built a thing'')
     = BulletEntry \<and>
   classify ascii_ucd (Some NameStyle) [add_paragraph] (ustr ''plain text'') = PlainText \<and>
   format_paragraph ascii_ucd (Some NameStyle, [add_paragraph]) (bullet @ ustr '' Built a thing'')
     = Inr (Some ContentStyle,
            [add_paragraph,
             \<lparr>pstyle = Some ContentStyle,
              runs = [(bullet @ ustr '' '', True), (ustr ''Built a thing'', False)],
              space_before = None\<rparr>]) \<and>
   format_paragraph ascii_ucd (Some NameStyle, [add_paragraph]) (ustr ''plain text'')
     = Inr (Some ContentStyle,
            [add_paragraph,
             \<lparr>pstyle = Some ContentStyle, runs = [(ustr ''plain text'', False)],
              space_before = None\<rparr>])"
  by (simp add: format_paragraph_def classify_def render_def style_name_def Let_def
        set_text_def add_run_def add_paragraph_def ev)

text \<open>
  C6, amended. After every non-empty line the state \<open>previous_style\<close> is the style
  name of the paragraph just added, which the branch taken determines: \<open>SectionStyle\<close>
  for a section header, \<open>ContactStyle\<close> for a contact line, \<open>NameStyle\<close> for the name,
  \<open>EducationStyle\<close> for an institution row, and \<open>ContentStyle\<close> for a bullet entry,
  a label with value and plain text alike.
\<close>

theorem previous_style_is_style_name:
  assumes "strip U line = text" and "text \<noteq> []"
  shows "\<exists>p. format_paragraph U (previous_style, document) line
               = Inr (pstyle p, document @ [p])
             \<and> pstyle p =
                 Some (case classify U previous_style document text of
                         SectionHeader \<Rightarrow> SectionStyle | ContactLine \<Rightarrow> ContactStyle
                       | Name \<Rightarrow> NameStyle | InstitutionRow \<Rightarrow> EducationStyle
                       | BulletEntry \<Rightarrow> ContentStyle | LabelValue \<Rightarrow> ContentStyle
                       | PlainText \<Rightarrow> ContentStyle)"
proof -
  obtain p where r: "render U previous_style (classify U previous_style document text) text = Inr p"
    using render_total by blast
  from format_paragraph_step [OF assms r] render_style [OF r] show ?thesis by blast
qed

theorem previous_style_is_style_name_witness:
  "\<exists>p. format_paragraph ascii_ucd (Some NameStyle, [add_paragraph]) (ustr ''plain text'')
          = Inr (pstyle p, [add_paragraph] @ [p])
        \<and> pstyle p = Some ContentStyle"
proof -
  let ?text = "ustr ''plain text''"
  have s: "strip ascii_ucd ?text = ?text" by (simp add: ev)
  have ne: "?text \<noteq> []" by (simp add: ev)
  have c: "classify ascii_ucd (Some NameStyle) [add_paragraph] ?text = PlainText"
    by (simp add: classify_def ev)
  from previous_style_is_style_name [OF s ne, of "Some NameStyle" "[add_paragraph]"] c
  show ?thesis by simp
qed

text \<open>
  C7. Every line that contains both \<open>@\<close> and the bullet takes the contact branch, and
  the text of its paragraph is the line split at the bullets, each token stripped, the
  tokens joined again by a bullet between two spaces.
\<close>

theorem contact_line_canonical:
  assumes "strip U line = text"
    and "contains (ustr ''@'') text" and "contains bullet text"
  shows "classify U previous_style document text = ContactLine \<and>
         format_paragraph U (previous_style, document) line =
           Inr (Some ContactStyle,
                document @
                  [\<lparr>pstyle = Some ContactStyle,
                    runs = [(join (ustr '' '' @ bullet @ ustr '' '')
                                  (map (strip U) (split bullet text)), False)],
                    space_before = None\<rparr>])"
proof -
  have c: "classify U previous_style document text = ContactLine"
    using assms(2,3) by (simp add: classify_def)
  have ne: "text \<noteq> []"
    using assms(3) by (rule contains_nonempty) (simp add: bullet_def)
  have r: "render U previous_style ContactLine text =
             Inr \<lparr>pstyle = Some ContactStyle,
                  runs = [(join (ustr '' '' @ bullet @ ustr '' '')
                                (map (strip U) (split bullet text)), False)],
                  space_before = None\<rparr>"
    by (simp add: render_def Let_def set_text_def add_paragraph_def)
  from format_paragraph_step [OF assms(1) ne, of previous_style document] r c
  show ?thesis by simp
qed

theorem contact_line_canonical_witness:
  "classify ascii_ucd None [] (ustr ''jane@x.com'' @ bullet @ ustr ''555-1234'') = ContactLine \<and>
   format_paragraph ascii_ucd (None, []) (ustr '' jane@x.com'' @ bullet @ ustr ''555-1234 '') =
     Inr (Some ContactStyle,
          [\<lparr>pstyle = Some ContactStyle,
            runs = [(ustr ''jane@x.com '' @ bullet @ ustr '' 555-1234'', False)],
            space_before = None\<rparr>])"
proof -
  let ?line = "ustr '' jane@x.com'' @ bullet @ ustr ''555-1234 ''"
  let ?text = "ustr ''jane@x.com'' @ bullet @ ustr ''555-1234''"
  have s: "strip ascii_ucd ?line = ?text" by (simp add: ev)
  have a: "contains (ustr ''@'') ?text" by (simp add: ev)
  have b: "contains bullet ?text" by (simp add: ev)
  have j: "join (ustr '' '' @ bullet @ ustr '' '') (map (strip ascii_ucd) (split bullet ?text))
             = ustr ''jane@x.com '' @ bullet @ ustr '' 555-1234''"
    by (simp add: ev)
  from contact_line_canonical [OF s a b, of None "[]"] show ?thesis
    by (simp add: j)
qed

text \<open>
  C8. In \<open>format_cover_letter\<close> the letter body is split at each pair of line breaks
  and every part that is not empty after stripping becomes exactly one content
  paragraph, between the five head paragraphs and the closing; the body
  \<open>Para one.\n\nPara two.\<close> gives exactly two content paragraphs.
\<close>

theorem cover_letter_content_blocks:
  assumes "user_info ''name'' = Some name" and "user_info ''email'' = Some email"
    and "user_info ''phone'' = Some phone" and "user_info ''company_name'' = Some company"
  shows "\<exists>header contact date recipient salutation closing.
           format_cover_letter U today document content user_info =
             Inr (document @ [header, contact, date, recipient, salutation]
                  @ map (\<lambda>part. \<lparr>pstyle = Some ContentStyle, runs = [(strip U part, False)],
                                  space_before = None\<rparr>)
                        (filter (\<lambda>part. strip U part \<noteq> []) (split [10, 10] content))
                  @ [closing])
           \<and> (U = ascii_ucd \<and> content = ustr ''Para one.'' @ [10, 10] @ ustr ''Para two.'' \<longrightarrow>
                format_cover_letter U today document content user_info =
                  Inr (document @ [header, contact, date, recipient, salutation]
                       @ [\<lparr>pstyle = Some ContentStyle, runs = [(ustr ''Para one.'', False)],
                           space_before = None\<rparr>,
                          \<lparr>pstyle = Some ContentStyle, runs = [(ustr ''Para two.'', False)],
                           space_before = None\<rparr>]
                       @ [closing]))"
proof -
  let ?blocks = "\<lambda>U content.
     map (\<lambda>part. \<lparr>pstyle = Some ContentStyle, runs = [(strip U part, False)],
                   space_before = None\<rparr>)
         (filter (\<lambda>part. strip U part \<noteq> []) (split [10, 10] content))"
  obtain header contact date recipient salutation closing where
    eq: "format_cover_letter U today document content user_info =
           Inr (document @ [header, contact, date, recipient, salutation]
                @ ?blocks U content @ [closing])"
    using format_cover_letter_result [OF assms] by blast
  have sc: "?blocks ascii_ucd (ustr ''Para one.'' @ [10, 10] @ ustr ''Para two.'')
              = [\<lparr>pstyle = Some ContentStyle, runs = [(ustr ''Para one.'', False)],
                  space_before = None\<rparr>,
                 \<lparr>pstyle = Some ContentStyle, runs = [(ustr ''Para two.'', False)],
                  space_before = None\<rparr>]"
    by (simp add: ev)
  have "U = ascii_ucd \<and> content = ustr ''Para one.'' @ [10, 10] @ ustr ''Para two.'' \<longrightarrow>
          format_cover_letter U today document content user_info =
            Inr (document @ [header, contact, date, recipient, salutation]
                 @ [\<lparr>pstyle = Some ContentStyle, runs = [(ustr ''Para one.'', False)],
                     space_before = None\<rparr>,
                    \<lparr>pstyle = Some ContentStyle, runs = [(ustr ''Para two.'', False)],
                     space_before = None\<rparr>]
                 @ [closing])"
    using eq sc by auto
  with eq show ?thesis by blast
qed

theorem cover_letter_content_blocks_witness:
  "format_cover_letter ascii_ucd (ustr ''March 05, 2024'') []
     (ustr ''Para one.'' @ [10, 10] @ ustr ''Para two.'') example_user_info =
     Inr [\<lparr>pstyle = Some HeaderStyle, runs = [(ustr ''JANE DOE'', True)], space_before = None\<rparr>,
          \<lparr>pstyle = Some HeaderStyle,
           runs = [(ustr ''jane@x.com '' @ bullet @ ustr '' 555-1234'', False)],
           space_before = None\<rparr>,
          \<lparr>pstyle = Some DateStyle, runs = [(ustr ''March 05, 2024'', False)],
           space_before = None\<rparr>,
          \<lparr>pstyle = Some RecipientStyle,
           runs = [(ustr ''Acme'' @ [10] @ ustr ''Hiring Manager'', False)],
           space_before = None\<rparr>,
          \<lparr>pstyle = Some ContentStyle, runs = [(ustr ''Dear Hiring Manager,'', False)],
           space_before = None\<rparr>,
          \<lparr>pstyle = Some ContentStyle, runs = [(ustr ''Para one.'', False)],
           space_before = None\<rparr>,
          \<lparr>pstyle = Some ContentStyle, runs = [(ustr ''Para two.'', False)],
           space_before = None\<rparr>,
          \<lparr>pstyle = Some ContentStyle,
           runs = [(ustr ''Sincerely,'' @ [10] @ ustr ''Jane Doe'', False)],
           space_before = None\<rparr>]"
proof -
  have 1: "example_user_info ''name'' = Some (ustr ''Jane Doe'')"
    and 2: "example_user_info ''email'' = Some (ustr ''jane@x.com'')"
    and 3: "example_user_info ''phone'' = Some (ustr ''555-1234'')"
    and 4: "example_user_info ''company_name'' = Some (ustr ''Acme'')"
    by (simp_all add: example_user_info_def)
  from cover_letter_content_blocks [OF 1 2 3 4, of ascii_ucd "ustr ''March 05, 2024''" "[]"
      "ustr ''Para one.'' @ [10, 10] @ ustr ''Para two.''"]
  obtain header contact date recipient salutation closing where
    eq: "format_cover_letter ascii_ucd (ustr ''March 05, 2024'') []
           (ustr ''Para one.'' @ [10, 10] @ ustr ''Para two.'') example_user_info =
         Inr ([] @ [header, contact, date, recipient, salutation]
              @ [\<lparr>pstyle = Some ContentStyle, runs = [(ustr ''Para one.'', False)],
                  space_before = None\<rparr>,
                 \<lparr>pstyle = Some ContentStyle, runs = [(ustr ''Para two.'', False)],
                  space_before = None\<rparr>]
              @ [closing])"
    by blast
  have v: "format_cover_letter ascii_ucd (ustr ''March 05, 2024'') []
             (ustr ''Para one.'' @ [10, 10] @ ustr ''Para two.'') example_user_info =
           Inr [\<lparr>pstyle = Some HeaderStyle, runs = [(ustr ''JANE DOE'', True)], space_before = None\<rparr>,
          \<lparr>pstyle = Some HeaderStyle,
           runs = [(ustr ''jane@x.com '' @ bullet @ ustr '' 555-1234'', False)],
           space_before = None\<rparr>,
          \<lparr>pstyle = Some DateStyle, runs = [(ustr ''March 05, 2024'', False)],
           space_before = None\<rparr>,
          \<lparr>pstyle = Some RecipientStyle,
           runs = [(ustr ''Acme'' @ [10] @ ustr ''Hiring Manager'', False)],
           space_before = None\<rparr>,
          \<lparr>pstyle = Some ContentStyle, runs = [(ustr ''Dear Hiring Manager,'', False)],
           space_before = None\<rparr>,
          \<lparr>pstyle = Some ContentStyle, runs = [(ustr ''Para one.'', False)],
           space_before = None\<rparr>,
          \<lparr>pstyle = Some ContentStyle, runs = [(ustr ''Para two.'', False)],
           space_before = None\<rparr>,
          \<lparr>pstyle = Some ContentStyle,
           runs = [(ustr ''Sincerely,'' @ [10] @ ustr ''Jane Doe'', False)],
           space_before = None\<rparr>]"
    by (simp add: format_cover_letter_def example_user_info_def getitem_def bind_exn_def Let_def
          set_text_def add_run_def add_paragraph_def ev)
  from eq v show ?thesis by simp
qed

text \<open>
  C9. The claim: the name of the output file holds a task tag and a timestamp, for
  both tasks. The cover-letter endpoint does so (\<open>cover_letter_\<close> and the time, see
  C5); \<open>customize_resume\<close> saves every result under the fixed name
  \<open>formatted_resume.docx\<close>, whatever the time of the request.
\<close>

theorem customize_resume_fixed_name:
  assumes "files req ''resume'' = Some cv" and "suffix (ustr ''.docx'') (filename cv)"
    and "docx cv = Inr paragraphs" and "output_save_raises E = None"
  shows "customize_resume U (E\<lparr>now := t\<rparr>) req =
           Returns (Response 200 [(''file_path'', ustr ''formatted_resume.docx'')])"
proof -
  obtain d where "format_resume U paragraphs [] = Inr d"
    using format_resume_total by blast
  with assms show ?thesis
    by (auto simp: customize_resume_def customize_resume_body_def except_Exception_def
          bind_exn_def Let_def)
qed

theorem customize_resume_fixed_name_witness:
  "customize_resume ascii_ucd
     ((example_env None)\<lparr>now := \<lparr>year = 2024, month = 3, day = 5, hour = 14, minute = 7,
                               second = 9\<rparr>\<rparr>)
     (example_request (Inr [])) =
     Returns (Response 200 [(''file_path'', ustr ''formatted_resume.docx'')]) \<and>
   customize_resume ascii_ucd
     ((example_env None)\<lparr>now := \<lparr>year = 2025, month = 11, day = 30, hour = 8, minute = 0,
                               second = 1\<rparr>\<rparr>)
     (example_request (Inr [])) =
     Returns (Response 200 [(''file_path'', ustr ''formatted_resume.docx'')])"
proof -
  let ?req = "example_request (Inr [])"
  let ?cv = "\<lparr>filename = ustr ''resume.docx'', save_raises = None,
              docx = Inr [ustr ''Jane Doe'']\<rparr>"
  have 1: "files ?req ''resume'' = Some ?cv" by (simp add: example_request_def)
  have 2: "suffix (ustr ''.docx'') (filename ?cv)" by (simp add: ustr_def suffix_def)
  have 3: "docx ?cv = Inr [ustr ''Jane Doe'']" by simp
  have 4: "output_save_raises (example_env None) = None" by (simp add: example_env_def)
  from customize_resume_fixed_name [OF 1 2 3 4, of ascii_ucd] show ?thesis by simp
qed

text \<open>
  C10. A line that takes the course-listing branch is rendered as a bold run that ends
  in a colon, followed by a plain run. When the line has a colon the bold run is the
  text before the first colon with that colon and the plain run is the rest, so the
  text is unchanged; when it has none, the bold run is the whole line with a colon
  appended.
\<close>

theorem label_value_colon:
  assumes "strip U line = text" and "text \<noteq> []"
    and "classify U previous_style document text = LabelValue"
  shows "\<exists>label courses.
           format_paragraph U (previous_style, document) line =
             Inr (Some ContentStyle,
                  document @
                    [\<lparr>pstyle = Some ContentStyle,
                      runs = [(label @ ustr '':'', True), (courses, False)],
                      space_before = None\<rparr>])
           \<and> (if contains (ustr '':'') text
              then text = label @ ustr '':'' @ courses \<and> \<not> contains (ustr '':'') label
              else label = text \<and> courses = [])"
proof (cases "contains (ustr '':'') text")
  case True
  from unpack2_split1 [OF True] obtain b a
    where u: "unpack2 (split1 (ustr '':'') text) = Inr (b, a)"
      and f: "find_sep (ustr '':'') text = Some (b, a)" by blast
  have r: "render U previous_style LabelValue text =
             Inr \<lparr>pstyle = Some ContentStyle,
                  runs = [(b @ ustr '':'', True), (a, False)], space_before = None\<rparr>"
    using True u by (simp add: render_def add_run_def add_paragraph_def)
  have "text = b @ ustr '':'' @ a" using f by (rule find_sep_Some)
  moreover have "\<not> contains (ustr '':'') b"
    using f by (rule find_sep_before) (simp add: ustr_def)
  ultimately show ?thesis
    using format_paragraph_step [OF assms(1,2), of previous_style document] r assms(3) True
    by auto
next
  case False
  have r: "render U previous_style LabelValue text =
             Inr \<lparr>pstyle = Some ContentStyle,
                  runs = [(text @ ustr '':'', True), ([], False)], space_before = None\<rparr>"
    using False by (simp add: render_def add_run_def add_paragraph_def)
  show ?thesis
    using format_paragraph_step [OF assms(1,2), of previous_style document] r assms(3) False
    by auto
qed

theorem label_value_colon_witness:
  "format_paragraph ascii_ucd (Some SectionStyle, [add_paragraph]) (ustr ''Skills Python'') =
     Inr (Some ContentStyle,
          [add_paragraph,
           \<lparr>pstyle = Some ContentStyle,
            runs = [(ustr ''Skills Python:'', True), ([], False)],
            space_before = None\<rparr>])"
proof -
  let ?text = "ustr ''Skills Python''"
  have s: "strip ascii_ucd ?text = ?text" by (simp add: ev)
  have ne: "?text \<noteq> []" by (simp add: ev)
  have c: "classify ascii_ucd (Some SectionStyle) [add_paragraph] ?text = LabelValue"
    by (simp add: classify_def ev)
  have n: "\<not> contains (ustr '':'') ?text" by (simp add: ev)
  from label_value_colon [OF s ne c] n show ?thesis by (auto simp: ustr_def)
qed

end
